theory Spec2Isabelle
  imports Complex_Main "HOL-Library.AList"
begin

section \<open>Numbers\<close>

text \<open>
  A TypeScript \<^verbatim>\<open>number\<close> is modelled as a real: the arithmetic of the rating engine and of
  the reliability tracker is the exact arithmetic over the reals, not IEEE double
  arithmetic. \<^verbatim>\<open>Math.round\<close> rounds to the nearest integer, a tie going towards
  plus infinity; \<^verbatim>\<open>Math.pow(10, x)\<close> is \<open>10 powr x\<close>; \<^verbatim>\<open>Number.isInteger\<close> holds of a
  number that equals its own floor.
\<close>

definition math_round :: "real \<Rightarrow> real" where
  "math_round x = of_int \<lfloor>x + 1 / 2\<rfloor>"

definition number_isInteger :: "real \<Rightarrow> bool" where
  "number_isInteger x = (of_int \<lfloor>x\<rfloor> = x)"

subsection \<open>Constants of \<^verbatim>\<open>types.ts\<close>\<close>

definition DEFAULT_ELO :: real where
  "DEFAULT_ELO = 1200"

definition ELO_K_FACTOR :: real where
  "ELO_K_FACTOR = 32"

definition NO_SHOW_PENALTY_MULTIPLIER :: real where
  "NO_SHOW_PENALTY_MULTIPLIER = 95 / 100"

section \<open>Reliability tracker (\<^verbatim>\<open>geolocation.ts\<close>)\<close>

definition calculateReliabilityPenalty :: "real \<Rightarrow> real \<Rightarrow> real" where
  "calculateReliabilityPenalty currentScore penaltyMultiplier =
     math_round (currentScore * penaltyMultiplier)"

text \<open>The call with the default multiplier, which the specification names \<open>penalize\<close>.\<close>

definition penalize :: "real \<Rightarrow> real" where
  "penalize score = calculateReliabilityPenalty score NO_SHOW_PENALTY_MULTIPLIER"

section \<open>Rating engine (\<^verbatim>\<open>elo.ts\<close>)\<close>

definition calculateExpectedScore :: "real \<Rightarrow> real \<Rightarrow> real" where
  "calculateExpectedScore playerElo opponentElo =
     1 / (1 + 10 powr ((opponentElo - playerElo) / 400))"

definition calculateNewElo :: "real \<Rightarrow> real \<Rightarrow> real \<Rightarrow> real \<Rightarrow> real" where
  "calculateNewElo currentElo expectedScore actualScore kFactor =
     math_round (currentElo + kFactor * (actualScore - expectedScore))"

definition calculateTeamAverageElo :: "real list \<Rightarrow> real" where
  "calculateTeamAverageElo teamElos =
     (if length teamElos = 0 then 0
      else math_round (foldl (\<lambda>sum elo. sum + elo) 0 teamElos / real (length teamElos)))"

text \<open>
  A JavaScript \<^verbatim>\<open>Map<string, number>\<close> is an association list in insertion order;
  \<^verbatim>\<open>set\<close> of a key already present replaces its value in place, which is
  \<^const>\<open>AList.update\<close>, and \<^verbatim>\<open>forEach\<close> visits the entries in list order.
\<close>

type_synonym elo_map = "(string \<times> real) list"

definition processGameResults :: "elo_map \<Rightarrow> elo_map \<Rightarrow> real \<Rightarrow> real \<Rightarrow> elo_map" where
  "processGameResults team1Elos team2Elos team1Score team2Score =
     (let team1Avg = calculateTeamAverageElo (map snd team1Elos);
          team2Avg = calculateTeamAverageElo (map snd team2Elos);
          team1ActualScore =
            (if team1Score > team2Score then 1 else if team1Score < team2Score then 0 else 1 / 2);
          team2ActualScore =
            (if team1Score > team2Score then 0 else if team1Score < team2Score then 1 else 1 / 2);
          newRatings1 =
            fold (\<lambda>(playerId, elo) newRatings.
                    AList.update playerId
                      (calculateNewElo elo (calculateExpectedScore elo team2Avg)
                         team1ActualScore ELO_K_FACTOR) newRatings)
                 team1Elos []
      in fold (\<lambda>(playerId, elo) newRatings.
                 AList.update playerId
                   (calculateNewElo elo (calculateExpectedScore elo team1Avg)
                      team2ActualScore ELO_K_FACTOR) newRatings)
              team2Elos newRatings1)"

section \<open>Data model (\<^verbatim>\<open>types.ts\<close>)\<close>

datatype Sport = basketball | soccer

datatype SkillLevel = casual | competitive

datatype GameStatus = open_status | in_progress | pending_results | completed | cancelled

datatype RecurrenceFrequency = none | weekly | biweekly

text \<open>
  \<^verbatim>\<open>sports\<close> is the object indexed by the sport's name. The fields of a profile that
  no operation below reads or writes (photo, creation time) stay in the record's
  extension slot.
\<close>

record User =
  uid :: string
  displayName :: string
  email :: string
  sports :: "Sport \<Rightarrow> real"
  reliabilityScore :: real
  gamesPlayed :: int
  gamesAttended :: int

record GameLocation =
  lat :: real
  lng :: real
  address :: string
  name :: string

record SubmitScoreInput =
  team1 :: "string list"
  team2 :: "string list"
  team1Score :: real
  team2Score :: real

record GameResults = SubmitScoreInput +
  confirmedBy :: "string list"

record Recurrence =
  frequency :: RecurrenceFrequency
  dayOfWeek :: int
  parentGameId :: "string option"

text \<open>
  Instants (\<^verbatim>\<open>Date\<close>, \<^verbatim>\<open>Timestamp\<close>) are milliseconds since the epoch. A game has
  every field of the creation form, so the record of a game extends the record of
  the form.
\<close>

record CreateGameInput =
  sport :: Sport
  location :: GameLocation
  startTime :: int
  duration :: real
  maxPlayers :: int
  skillLevel :: SkillLevel
  minElo :: "real option"
  recurrence :: "Recurrence option"

record Game = CreateGameInput +
  gameId :: string
  hostId :: string
  players :: "string list"
  checkedIn :: "string list"
  status :: GameStatus
  results :: "GameResults option"
  createdAt :: int

section \<open>Persistence (\<^verbatim>\<open>firestore.ts\<close>)\<close>

text \<open>
  The two collections are maps from document id to document. Every operation takes
  the store and returns the new one, or the error it throws; a thrown error leaves
  the store as it was.
\<close>

record Store =
  games :: "string \<Rightarrow> Game option"
  users :: "string \<Rightarrow> User option"

text \<open>
  One constructor for each message the code throws. \<open>DocumentMissing\<close> is what
  \<^verbatim>\<open>updateDoc\<close> and \<^verbatim>\<open>transaction.update\<close> reject with when the document does not
  exist; \<open>TeamsEmpty\<close> is the message the submit handler shows without calling the
  persistence layer; \<open>RatingForUnreadPlayer\<close> is the failure of the non-null
  assertion when the rating function returns a player who was not read;
  \<open>UnsupportedFieldValue\<close> is what \<^verbatim>\<open>addDoc\<close> rejects a document with when one of its
  fields is \<^verbatim>\<open>undefined\<close> (\<^verbatim>\<open>config.ts\<close> does not ask the client to ignore such fields).
\<close>

datatype error =
    DocumentMissing
  | GameNotFound
  | NotAPlayer
  | CheckInNotOpen
  | NotInProgress
  | PlayerNotInGame string
  | ScoresNegative
  | ScoresNotWhole
  | NotPendingResults
  | NotAParticipant
  | AlreadyConfirmed
  | PlayerNotFound string
  | RatingForUnreadPlayer string
  | TeamsEmpty
  | UnsupportedFieldValue

definition arrayUnion :: "string list \<Rightarrow> string \<Rightarrow> string list" where
  "arrayUnion xs x = (if x \<in> set xs then xs else xs @ [x])"

definition arrayRemove :: "string list \<Rightarrow> string \<Rightarrow> string list" where
  "arrayRemove xs x = filter (\<lambda>y. y \<noteq> x) xs"

definition updateGameDoc :: "Store \<Rightarrow> string \<Rightarrow> (Game \<Rightarrow> Game) \<Rightarrow> error + Store" where
  "updateGameDoc st gid f =
     (case games st gid of
        None \<Rightarrow> Inl DocumentMissing
      | Some g \<Rightarrow> Inr (st\<lparr>games := (games st)(gid \<mapsto> f g)\<rparr>))"

text \<open>
  \<open>docId\<close> is the identifier \<^verbatim>\<open>addDoc\<close> generates and \<open>now\<close> the server's time. The
  object given to \<^verbatim>\<open>addDoc\<close> always has the key \<^verbatim>\<open>minElo\<close>, so a form without a minimum
  rating makes the value of that key \<^verbatim>\<open>undefined\<close> and the call is rejected. The key
  \<^verbatim>\<open>recurrence\<close> is only set when there is a recurrence other than \<open>none\<close>; within a
  recurrence, \<open>parentGameId = None\<close> stands for a key that is absent.
\<close>

definition createGame ::
  "Store \<Rightarrow> string \<Rightarrow> int \<Rightarrow> string \<Rightarrow> CreateGameInput \<Rightarrow> error + (string \<times> Store)" where
  "createGame st docId now host input =
     (if minElo input = None then Inl UnsupportedFieldValue
      else Inr (docId,
        st\<lparr>games := (games st)(docId \<mapsto>
          \<lparr>sport = sport input,
           location = location input,
           startTime = startTime input,
           duration = duration input,
           maxPlayers = maxPlayers input,
           skillLevel = skillLevel input,
           minElo = minElo input,
           recurrence =
             (case recurrence input of
                None \<Rightarrow> None
              | Some r \<Rightarrow> if frequency r \<noteq> none then Some r else None),
           gameId = docId,
           hostId = host,
           players = [host],
           checkedIn = [],
           status = open_status,
           results = None,
           createdAt = now\<rparr>)\<rparr>))"


definition createNextRecurringGame ::
  "(int \<Rightarrow> int \<Rightarrow> int) \<Rightarrow> Store \<Rightarrow> string \<Rightarrow> int \<Rightarrow> Game \<Rightarrow> error + (string option \<times> Store)" where
  "createNextRecurringGame plusDays st docId now completedGame =
     (case recurrence completedGame of
        None \<Rightarrow> Inr (None, st)
      | Some r \<Rightarrow>
          if frequency r = none then Inr (None, st)
          else
            let weeksToAdd = (if frequency r = weekly then 1 else 2);
                nextStart = plusDays (startTime completedGame) (weeksToAdd * 7);
                maxFutureDate = plusDays now 30
            in if nextStart > maxFutureDate then Inr (None, st)
               else
                 let input =
                   \<lparr>sport = sport completedGame,
                    location = location completedGame,
                    startTime = nextStart,
                    duration = duration completedGame,
                    maxPlayers = maxPlayers completedGame,
                    skillLevel = skillLevel completedGame,
                    minElo = minElo completedGame,
                    recurrence = Some (r\<lparr>parentGameId :=
                      Some (case parentGameId r of
                              None \<Rightarrow> gameId completedGame
                            | Some p \<Rightarrow> if p = [] then gameId completedGame else p)\<rparr>)\<rparr>
                 in (case createGame st docId now (hostId completedGame) input of
                       Inl e \<Rightarrow> Inl e
                     | Inr (newId, st') \<Rightarrow> Inr (Some newId, st')))"

definition joinGame :: "Store \<Rightarrow> string \<Rightarrow> string \<Rightarrow> error + Store" where
  "joinGame st gid userId = updateGameDoc st gid (\<lambda>g. g\<lparr>players := arrayUnion (players g) userId\<rparr>)"

definition leaveGame :: "Store \<Rightarrow> string \<Rightarrow> string \<Rightarrow> error + Store" where
  "leaveGame st gid userId = updateGameDoc st gid (\<lambda>g. g\<lparr>players := arrayRemove (players g) userId\<rparr>)"

definition checkInToGame :: "Store \<Rightarrow> string \<Rightarrow> string \<Rightarrow> error + Store" where
  "checkInToGame st gid userId =
     (case games st gid of
        None \<Rightarrow> Inl GameNotFound
      | Some gameData \<Rightarrow>
          if userId \<notin> set (players gameData) then Inl NotAPlayer
          else if status gameData \<noteq> open_status then Inl CheckInNotOpen
          else updateGameDoc st gid (\<lambda>g. g\<lparr>checkedIn := arrayUnion (checkedIn g) userId\<rparr>))"

definition updateGameStatus :: "Store \<Rightarrow> string \<Rightarrow> GameStatus \<Rightarrow> error + Store" where
  "updateGameStatus st gid s = updateGameDoc st gid (\<lambda>g. g\<lparr>status := s\<rparr>)"

definition cancelGame :: "Store \<Rightarrow> string \<Rightarrow> error + Store" where
  "cancelGame st gid = updateGameDoc st gid (\<lambda>g. g\<lparr>status := cancelled\<rparr>)"

definition submitGameResults :: "Store \<Rightarrow> string \<Rightarrow> SubmitScoreInput \<Rightarrow> error + Store" where
  "submitGameResults st gid input =
     (case games st gid of
        None \<Rightarrow> Inl GameNotFound
      | Some gameData \<Rightarrow>
          if status gameData \<noteq> in_progress then Inl NotInProgress
          else
            (case find (\<lambda>playerId. playerId \<notin> set (players gameData)) (team1 input @ team2 input) of
               Some playerId \<Rightarrow> Inl (PlayerNotInGame playerId)
             | None \<Rightarrow>
                 if team1Score input < 0 \<or> team2Score input < 0 then Inl ScoresNegative
                 else if \<not> number_isInteger (team1Score input) \<or> \<not> number_isInteger (team2Score input)
                   then Inl ScoresNotWhole
                 else updateGameDoc st gid
                   (\<lambda>g. g\<lparr>results := Some \<lparr>team1 = team1 input, team2 = team2 input,
                                          team1Score = team1Score input,
                                          team2Score = team2Score input,
                                          confirmedBy = []\<rparr>,
                          status := pending_results\<rparr>)))"

definition confirmGameResults :: "Store \<Rightarrow> string \<Rightarrow> string \<Rightarrow> error + Store" where
  "confirmGameResults st gid userId =
     (case games st gid of
        None \<Rightarrow> Inl GameNotFound
      | Some gameData \<Rightarrow>
          if status gameData \<noteq> pending_results then Inl NotPendingResults
          else
            let allResultPlayers =
              (case results gameData of None \<Rightarrow> [] | Some r \<Rightarrow> team1 r) @
              (case results gameData of None \<Rightarrow> [] | Some r \<Rightarrow> team2 r)
            in if userId \<notin> set allResultPlayers then Inl NotAParticipant
               else if (case results gameData of None \<Rightarrow> False | Some r \<Rightarrow> userId \<in> set (confirmedBy r))
                 then Inl AlreadyConfirmed
               else updateGameDoc st gid
                 (\<lambda>g. g\<lparr>results :=
                    map_option (\<lambda>r. r\<lparr>confirmedBy := arrayUnion (confirmedBy r) userId\<rparr>) (results g)\<rparr>))"

subsection \<open>The rating-commit transaction\<close>

text \<open>
  The reading loop of the transaction: it visits \<open>team1 @ team2\<close> in order and keeps the
  two rating maps and the map of the profiles read. \<^verbatim>\<open>validateUserData\<close> checks the
  types of the fields, which the record type \<open>User\<close> already fixes. The transaction
  never reads the game; its last write sets the status of the game.
\<close>

fun readProfiles ::
  "Store \<Rightarrow> Sport \<Rightarrow> string list \<Rightarrow> string list \<Rightarrow>
   elo_map \<times> elo_map \<times> (string \<times> User) list \<Rightarrow>
   error + (elo_map \<times> elo_map \<times> (string \<times> User) list)" where
  "readProfiles st sp t1 [] acc = Inr acc"
| "readProfiles st sp t1 (playerId # rest) (team1Elos, team2Elos, playerData) =
     (case users st playerId of
        None \<Rightarrow> Inl (PlayerNotFound playerId)
      | Some data \<Rightarrow>
          readProfiles st sp t1 rest
            (if playerId \<in> set t1
             then (AList.update playerId (sports data sp) team1Elos, team2Elos,
                   AList.update playerId data playerData)
             else (team1Elos, AList.update playerId (sports data sp) team2Elos,
                   AList.update playerId data playerData)))"

text \<open>The writing loop: one update of a profile for each entry of the new ratings.\<close>

fun writeRatings ::
  "Sport \<Rightarrow> (string \<times> User) list \<Rightarrow> elo_map \<Rightarrow> (string \<Rightarrow> User option) \<Rightarrow>
   error + (string \<Rightarrow> User option)" where
  "writeRatings sp playerData [] us = Inr us"
| "writeRatings sp playerData ((playerId, newElo) # rest) us =
     (case map_of playerData playerId of
        None \<Rightarrow> Inl (RatingForUnreadPlayer playerId)
      | Some data \<Rightarrow>
          (case us playerId of
             None \<Rightarrow> Inl DocumentMissing
           | Some u \<Rightarrow>
               writeRatings sp playerData rest
                 (us(playerId \<mapsto> u\<lparr>sports := (sports u)(sp := newElo),
                                     gamesPlayed := gamesPlayed data + 1,
                                     gamesAttended := gamesAttended data + 1\<rparr>))))"

definition processEloUpdatesTransactional ::
  "Store \<Rightarrow> string \<Rightarrow> string list \<Rightarrow> string list \<Rightarrow> real \<Rightarrow> real \<Rightarrow> Sport \<Rightarrow>
   (elo_map \<Rightarrow> elo_map \<Rightarrow> real \<Rightarrow> real \<Rightarrow> elo_map) \<Rightarrow> error + Store" where
  "processEloUpdatesTransactional st gid t1 t2 t1Score t2Score sp calculateResults =
     (case readProfiles st sp t1 (t1 @ t2) ([], [], []) of
        Inl e \<Rightarrow> Inl e
      | Inr (team1Elos, team2Elos, playerData) \<Rightarrow>
          (case writeRatings sp playerData
                  (calculateResults team1Elos team2Elos t1Score t2Score) (users st) of
             Inl e \<Rightarrow> Inl e
           | Inr us \<Rightarrow> updateGameDoc (st\<lparr>users := us\<rparr>) gid (\<lambda>g. g\<lparr>status := completed\<rparr>)))"

section \<open>Handlers of the game page and of the score component\<close>

text \<open>
  A handler catches what the persistence layer throws and shows the message, so its
  result is again the error or the new store. The handlers read the game from the
  component's property \<open>game\<close>, the last snapshot the page received, not from the store.
\<close>

definition handleJoin :: "Store \<Rightarrow> string \<Rightarrow> string option \<Rightarrow> error + Store" where
  "handleJoin st gid user =
     (case user of None \<Rightarrow> Inr st | Some userUid \<Rightarrow> joinGame st gid userUid)"

definition isJoined :: "Game \<Rightarrow> string option \<Rightarrow> bool" where
  "isJoined game user = ((case user of None \<Rightarrow> [] | Some userUid \<Rightarrow> userUid) \<in> set (players game))"

definition isFull :: "Game \<Rightarrow> bool" where
  "isFull game = (int (length (players game)) \<ge> maxPlayers game)"

definition meetsEloRequirement :: "Game \<Rightarrow> User option \<Rightarrow> bool" where
  "meetsEloRequirement game profile =
     (case minElo game of
        None \<Rightarrow> True
      | Some m \<Rightarrow> m = 0 \<or> (case profile of None \<Rightarrow> 0 | Some p \<Rightarrow> sports p (sport game)) \<ge> m)"

text \<open>
  The page renders the join button for an open game, a signed-in user who has not
  joined, and disables it while an action runs, when the game is full or when the
  rating requirement is not met.
\<close>

definition joinButtonEnabled :: "Game \<Rightarrow> string option \<Rightarrow> User option \<Rightarrow> bool \<Rightarrow> bool" where
  "joinButtonEnabled game user profile actionLoading =
     (status game = open_status \<and> user \<noteq> None \<and> \<not> isJoined game user \<and>
      \<not> (actionLoading \<or> isFull game \<or> \<not> meetsEloRequirement game profile))"

definition handleSubmitScore ::
  "Store \<Rightarrow> Game \<Rightarrow> string list \<Rightarrow> string list \<Rightarrow> real \<Rightarrow> real \<Rightarrow> error + Store" where
  "handleSubmitScore st game t1 t2 t1Score t2Score =
     (if length t1 = 0 \<or> length t2 = 0 then Inl TeamsEmpty
      else submitGameResults st (gameId game)
             \<lparr>team1 = t1, team2 = t2, team1Score = t1Score, team2Score = t2Score\<rparr>)"

text \<open>
  The result of the confirm handler: the store it leaves, the message it shows, and
  how many times it called the rating-commit transaction.
\<close>

record ConfirmResult =
  storeAfter :: Store
  errorShown :: "error option"
  transactionCalls :: nat

definition handleConfirmScore :: "Store \<Rightarrow> Game \<Rightarrow> string \<Rightarrow> ConfirmResult" where
  "handleConfirmScore st game currentUserId =
     (case confirmGameResults st (gameId game) currentUserId of
        Inl e \<Rightarrow> \<lparr>storeAfter = st, errorShown = Some e, transactionCalls = 0\<rparr>
      | Inr st1 \<Rightarrow>
          (case results game of
             None \<Rightarrow> \<lparr>storeAfter = st1, errorShown = None, transactionCalls = 0\<rparr>
           | Some r \<Rightarrow>
               let totalPlayers = length (team1 r) + length (team2 r);
                   confirmations = length (confirmedBy r) + 1
               in if real confirmations > real totalPlayers / 2
                  then (case processEloUpdatesTransactional st1 (gameId game) (team1 r) (team2 r)
                               (team1Score r) (team2Score r) (sport game) processGameResults of
                          Inl e \<Rightarrow> \<lparr>storeAfter = st1, errorShown = Some e, transactionCalls = 1\<rparr>
                        | Inr st2 \<Rightarrow> \<lparr>storeAfter = st2, errorShown = None, transactionCalls = 1\<rparr>)
                  else \<lparr>storeAfter = st1, errorShown = None, transactionCalls = 0\<rparr>))"

definition handleLeave :: "Store \<Rightarrow> string \<Rightarrow> string option \<Rightarrow> error + Store" where
  "handleLeave st gid user =
     (case user of None \<Rightarrow> Inr st | Some userUid \<Rightarrow> leaveGame st gid userUid)"

text \<open>
  The page renders the leave button for an open game and a signed-in user who has
  joined and is not the host; whether the user has checked in plays no part.
\<close>

definition leaveButtonShown :: "Game \<Rightarrow> string option \<Rightarrow> bool" where
  "leaveButtonShown game user =
     (status game = open_status \<and> user \<noteq> None \<and> isJoined game user \<and>
      user \<noteq> Some (hostId game))"

section \<open>The invariant of the data model and two scenarios\<close>

definition checkedInSubset :: "Game \<Rightarrow> bool" where
  "checkedInSubset g = (set (checkedIn g) \<subseteq> set (players g))"

text \<open>The profile \<^verbatim>\<open>createUserProfileIfNotExists\<close> stores for a new user.\<close>

definition newUser :: "string \<Rightarrow> User" where
  "newUser i =
     \<lparr>uid = i, displayName = i, email = [], sports = (\<lambda>s. DEFAULT_ELO),
      reliabilityScore = 100, gamesPlayed = 0, gamesAttended = 0\<rparr>"

definition court :: GameLocation where
  "court = \<lparr>lat = 0, lng = 0, address = ''1 Main St'', name = ''Court''\<rparr>"

text \<open>
  A basketball game of four players, two against two, whose host has submitted the
  score 10 to 5; the parameters are its status and who has confirmed so far.
\<close>

definition scoredGame :: "GameStatus \<Rightarrow> string list \<Rightarrow> Game" where
  "scoredGame s confirmed =
     \<lparr>sport = basketball, location = court, startTime = 0, duration = 60, maxPlayers = 4,
      skillLevel = casual, minElo = None, recurrence = None,
      gameId = ''g1'', hostId = ''a'', players = [''a'', ''b'', ''c'', ''d''],
      checkedIn = [''a'', ''b'', ''c'', ''d''], status = s,
      results = Some \<lparr>team1 = [''a'', ''b''], team2 = [''c'', ''d''],
                      team1Score = 10, team2Score = 5, confirmedBy = confirmed\<rparr>,
      createdAt = 0\<rparr>"

definition scoredStore :: "GameStatus \<Rightarrow> string list \<Rightarrow> Store" where
  "scoredStore s confirmed =
     \<lparr>games = [''g1'' \<mapsto> scoredGame s confirmed],
      users = [''a'' \<mapsto> newUser ''a'', ''b'' \<mapsto> newUser ''b'',
               ''c'' \<mapsto> newUser ''c'', ''d'' \<mapsto> newUser ''d'']\<rparr>"

text \<open>
  Two confirmations interleaved: \<open>c\<close> and \<open>d\<close> both confirm while \<open>a\<close> and \<open>b\<close> have
  confirmed, each handler sees three of four confirmations on its snapshot, and each
  then runs the rating-commit transaction.
\<close>

definition afterBothConfirm :: Store where
  "afterBothConfirm =
     projr (confirmGameResults
       (projr (confirmGameResults (scoredStore pending_results [''a'', ''b'']) ''g1'' ''c''))
       ''g1'' ''d'')"

definition firstCommit :: "error + Store" where
  "firstCommit =
     processEloUpdatesTransactional afterBothConfirm ''g1'' [''a'', ''b''] [''c'', ''d''] 10 5
       basketball processGameResults"

definition secondCommit :: "error + Store" where
  "secondCommit =
     processEloUpdatesTransactional (projr firstCommit) ''g1'' [''a'', ''b''] [''c'', ''d''] 10 5
       basketball processGameResults"

text \<open>
  A weekly competitive soccer game for two with a minimum rating of 1500, joined by
  the host \<open>h\<close> and by \<open>p\<close>; the parameters are its status and who has checked in.
\<close>

definition pickupGame :: "GameStatus \<Rightarrow> string list \<Rightarrow> Game" where
  "pickupGame s checked =
     \<lparr>sport = soccer, location = court, startTime = 0, duration = 90, maxPlayers = 2,
      skillLevel = competitive, minElo = Some 1500,
      recurrence = Some \<lparr>frequency = weekly, dayOfWeek = 4, parentGameId = None\<rparr>,
      gameId = ''g2'', hostId = ''h'', players = [''h'', ''p''],
      checkedIn = checked, status = s, results = None, createdAt = 0\<rparr>"

definition pickupStore :: "GameStatus \<Rightarrow> string list \<Rightarrow> Store" where
  "pickupStore s checked =
     \<lparr>games = [''g2'' \<mapsto> pickupGame s checked],
      users = [''h'' \<mapsto> newUser ''h'', ''p'' \<mapsto> newUser ''p'', ''q'' \<mapsto> newUser ''q'']\<rparr>"

section \<open>Properties of the rating engine and the reliability tracker\<close>

lemma penalize_of_int: "penalize (of_int n) = of_int ((19 * n + 10) div 20)"
proof -
  have "(of_int n :: real) * (95 / 100) + 1 / 2 = of_int (19 * n + 10) / of_int 20"
    by simp
  then have "\<lfloor>(of_int n :: real) * (95 / 100) + 1 / 2\<rfloor> = (19 * n + 10) div 20"
    by (simp only: floor_divide_of_int_eq)
  then show ?thesis
    by (simp add: penalize_def calculateReliabilityPenalty_def
        NO_SHOW_PENALTY_MULTIPLIER_def math_round_def)
qed

lemma penalize_funpow_of_int:
  "(penalize ^^ k) (of_int n) = of_int (((\<lambda>m. (19 * m + 10) div 20) ^^ k) n)"
  by (induction k) (simp_all add: penalize_of_int)

lemma penalize_step_bounds:
  fixes m :: int
  shows "10 \<le> m \<Longrightarrow> 10 \<le> (19 * m + 10) div 20"
    and "0 \<le> m \<Longrightarrow> 0 \<le> (19 * m + 10) div 20"
    and "0 \<le> m \<Longrightarrow> (19 * m + 10) div 20 \<le> m"
    and "10 < m \<Longrightarrow> (19 * m + 10) div 20 < m"
    and "0 \<le> m \<Longrightarrow> m \<le> 10 \<Longrightarrow> m \<le> (19 * m + 10) div 20"
  by linarith+

lemma penalize_iter_from_100:
  "\<exists>m::int. (penalize ^^ k) 100 = of_int m \<and> 10 \<le> m \<and> m \<le> 100"
proof (induction k)
  case 0
  have "(penalize ^^ 0) 100 = of_int 100 \<and> (10::int) \<le> 100 \<and> (100::int) \<le> 100" by simp
  then show ?case by blast
next
  case (Suc k)
  then obtain m :: int where m: "(penalize ^^ k) 100 = of_int m" "10 \<le> m" "m \<le> 100"
    by blast
  have "(penalize ^^ Suc k) 100 = of_int ((19 * m + 10) div 20)"
    by (simp add: m(1) penalize_of_int)
  moreover have "10 \<le> (19 * m + 10) div 20"
    using m(2) by (rule penalize_step_bounds(1))
  moreover have "(19 * m + 10) div 20 \<le> 100"
    using penalize_step_bounds(3) [of m] m(2,3) by linarith
  ultimately show ?case by blast
qed

text \<open>
  Claim C7, as the code has it. \<open>penalize score\<close> is \<open>round (score * 0.95)\<close>. For every
  non-negative integer score the result is a non-negative integer that is not larger
  than the score, and it is strictly smaller exactly when the score is above 10.
  Iterating from 100 never increases and never goes below 0.
\<close>

theorem penalize_bounds:
  fixes n :: int
  assumes "0 \<le> n"
  shows "penalize (of_int n) = math_round (of_int n * (95 / 100)) \<and>
         (\<exists>m::int. penalize (of_int n) = of_int m \<and> 0 \<le> m \<and> m \<le> n \<and> (m < n \<longleftrightarrow> 10 < n)) \<and>
         (\<forall>k. 0 \<le> (penalize ^^ k) 100 \<and> (penalize ^^ Suc k) 100 \<le> (penalize ^^ k) 100)"
proof -
  have a: "penalize (of_int n) = math_round (of_int n * (95 / 100))"
    by (simp add: penalize_def calculateReliabilityPenalty_def NO_SHOW_PENALTY_MULTIPLIER_def)
  let ?m = "(19 * n + 10) div 20"
  have b1: "0 \<le> ?m" using assms by (rule penalize_step_bounds(2))
  have b2: "?m \<le> n" using assms by (rule penalize_step_bounds(3))
  have b3: "?m < n \<longleftrightarrow> 10 < n"
  proof
    assume "?m < n"
    show "10 < n"
    proof (rule ccontr)
      assume "\<not> 10 < n"
      then have "n \<le> ?m" using assms penalize_step_bounds(5) [of n] by simp
      with \<open>?m < n\<close> show False by simp
    qed
  next
    assume "10 < n"
    then show "?m < n" by (rule penalize_step_bounds(4))
  qed
  have b: "\<exists>m::int. penalize (of_int n) = of_int m \<and> 0 \<le> m \<and> m \<le> n \<and> (m < n \<longleftrightarrow> 10 < n)"
    using penalize_of_int [of n] b1 b2 b3 by blast
  have c: "0 \<le> (penalize ^^ k) 100 \<and> (penalize ^^ Suc k) 100 \<le> (penalize ^^ k) 100" for k
  proof -
    obtain m :: int where m: "(penalize ^^ k) 100 = of_int m" "10 \<le> m" "m \<le> 100"
      using penalize_iter_from_100 [of k] by blast
    have "(19 * m + 10) div 20 \<le> m" using m(2) penalize_step_bounds(3) [of m] by simp
    then have "(penalize ^^ Suc k) 100 \<le> (penalize ^^ k) 100"
      by (simp add: m(1) penalize_of_int)
    moreover have "0 \<le> (penalize ^^ k) 100" using m(1,2) by simp
    ultimately show ?thesis by blast
  qed
  from a b c show ?thesis by blast
qed

theorem penalize_bounds_witness:
  "(0::int) \<le> 100 \<and> penalize 100 = 95"
proof -
  have h: "(0::int) \<le> 100" by simp
  from penalize_bounds [OF h]
  have "penalize (of_int 100) = math_round (of_int 100 * (95 / 100))" by blast
  then have "penalize 100 = 95" by (simp add: math_round_def)
  then show ?thesis by simp
qed

text \<open>
  Claim C7 as stated fails: a score of 0 and a score of 10 are left as they are, and
  the iteration from 100 reaches 10 after 43 applications and stays there.
\<close>

theorem penalize_counterexample:
  "penalize 0 = 0 \<and> penalize 10 = 10 \<and> (penalize ^^ 43) 100 = 10 \<and> (penalize ^^ 44) 100 = 10"
proof -
  have z: "penalize 0 = 0" using penalize_of_int [of 0] by simp
  have t: "penalize 10 = 10" using penalize_of_int [of 10] by simp
  have i: "(penalize ^^ 43) 100 = 10"
    using penalize_funpow_of_int [of 43 100] by (simp add: eval_nat_numeral)
  have "(penalize ^^ 44) 100 = penalize ((penalize ^^ 43) 100)"
    by (simp add: eval_nat_numeral)
  then have "(penalize ^^ 44) 100 = 10" by (simp only: i t)
  with z t i show ?thesis by blast
qed

lemma expected_equal: "calculateExpectedScore e e = 1 / 2"
  by (simp add: calculateExpectedScore_def)

lemma avg_single: "calculateTeamAverageElo [1200] = 1200"
  by (simp add: calculateTeamAverageElo_def math_round_def)

lemma newElo_win: "calculateNewElo 1200 (1 / 2) 1 ELO_K_FACTOR = 1216"
  by (simp add: calculateNewElo_def ELO_K_FACTOR_def math_round_def)

lemma newElo_loss: "calculateNewElo 1200 (1 / 2) 0 ELO_K_FACTOR = 1184"
  by (simp add: calculateNewElo_def ELO_K_FACTOR_def math_round_def)

lemma newElo_draw: "calculateNewElo 1200 (1 / 2) (1 / 2) ELO_K_FACTOR = 1200"
  by (simp add: calculateNewElo_def ELO_K_FACTOR_def math_round_def)

text \<open>
  Claim C3. For two teams of one player each, both rated 1200, with the K-factor 32:
  the winner of a decisive score gets 1216 and the loser 1184, a draw leaves both at
  1200, and the changes of the two ratings add up to 0.
\<close>

theorem processGameResults_equal_singles:
  assumes "p1 \<noteq> p2"
  shows "processGameResults [(p1, 1200)] [(p2, 1200)] s1 s2 =
           (if s1 > s2 then [(p1, 1216), (p2, 1184)]
            else if s1 < s2 then [(p1, 1184), (p2, 1216)]
            else [(p1, 1200), (p2, 1200)]) \<and>
         sum_list (map (\<lambda>(p, e). e - 1200) (processGameResults [(p1, 1200)] [(p2, 1200)] s1 s2)) = 0"
proof -
  have r: "processGameResults [(p1, 1200)] [(p2, 1200)] s1 s2 =
           (if s1 > s2 then [(p1, 1216), (p2, 1184)]
            else if s1 < s2 then [(p1, 1184), (p2, 1216)]
            else [(p1, 1200), (p2, 1200)])"
    using assms
    by (simp add: processGameResults_def Let_def avg_single expected_equal
        newElo_win newElo_loss newElo_draw)
  show ?thesis unfolding r by simp
qed

theorem processGameResults_equal_singles_witness:
  "''winner'' \<noteq> ''loser'' \<and>
   processGameResults [(''winner'', 1200)] [(''loser'', 1200)] 10 5 =
     [(''winner'', 1216), (''loser'', 1184)] \<and>
   processGameResults [(''winner'', 1200)] [(''loser'', 1200)] 5 5 =
     [(''winner'', 1200), (''loser'', 1200)]"
  using processGameResults_equal_singles [of "''winner''" "''loser''" 10 5]
    processGameResults_equal_singles [of "''winner''" "''loser''" 5 5]
  by simp

section \<open>Properties of the game lifecycle\<close>

subsection \<open>Confirming results\<close>

lemma confirmGameResults_ok:
  assumes "games st gid = Some g" "status g = pending_results" "results g = Some r"
    "userId \<in> set (team1 r) \<union> set (team2 r)" "userId \<notin> set (confirmedBy r)"
  shows "confirmGameResults st gid userId =
           Inr (st\<lparr>games := (games st)(gid \<mapsto>
                  g\<lparr>results := Some (r\<lparr>confirmedBy := confirmedBy r @ [userId]\<rparr>)\<rparr>)\<rparr>)"
  using assms
  by (auto simp add: confirmGameResults_def updateGameDoc_def arrayUnion_def Let_def)

lemma confirmGameResults_not_pending:
  assumes "games st gid = Some g" "status g \<noteq> pending_results"
  shows "confirmGameResults st gid userId = Inl NotPendingResults"
  using assms by (simp add: confirmGameResults_def)

lemma transaction_games:
  assumes "processEloUpdatesTransactional st gid t1 t2 s1 s2 sp f = Inr st'"
  shows "\<exists>g. games st gid = Some g \<and> games st' = (games st)(gid \<mapsto> g\<lparr>status := completed\<rparr>)"
  using assms
  by (auto simp add: processEloUpdatesTransactional_def updateGameDoc_def
      split: sum.splits prod.splits option.splits)

lemma majority_nat:
  "(real (c + 1) > real t / 2) = (t < 2 * (c + 1))"
  by (simp add: field_simps) linarith

text \<open>
  Claim C10. For a game pending results and an actor who is listed in one of the two
  teams and has not confirmed yet, \<open>confirmGameResults\<close> succeeds and the new store
  differs from the old one only in \<open>results.confirmedBy\<close> of that game, to which the
  actor is appended: the profiles, the other games, and the status, teams, scores and
  every other field of the game are as before. The status is still
  \<open>pending_results\<close>; it is the rating-commit transaction that sets \<open>completed\<close>.
\<close>

theorem confirmGameResults_frame:
  assumes "games st gid = Some g" "status g = pending_results" "results g = Some r"
    "userId \<in> set (team1 r) \<union> set (team2 r)" "userId \<notin> set (confirmedBy r)"
  shows "confirmGameResults st gid userId =
           Inr (st\<lparr>games := (games st)(gid \<mapsto>
                  g\<lparr>results := Some (r\<lparr>confirmedBy := confirmedBy r @ [userId]\<rparr>)\<rparr>)\<rparr>) \<and>
         (\<forall>st'. confirmGameResults st gid userId = Inr st' \<longrightarrow>
            users st' = users st \<and>
            (\<forall>other. other \<noteq> gid \<longrightarrow> games st' other = games st other) \<and>
            (\<exists>g' r'. games st' gid = Some g' \<and> results g' = Some r' \<and>
               status g' = pending_results \<and>
               g'\<lparr>results := results g\<rparr> = g \<and>
               r'\<lparr>confirmedBy := confirmedBy r\<rparr> = r \<and>
               confirmedBy r' = confirmedBy r @ [userId]))"
  using assms by (simp add: confirmGameResults_ok)

theorem confirmGameResults_frame_witness:
  "confirmGameResults (scoredStore pending_results [''a'']) ''g1'' ''b'' =
     Inr (scoredStore pending_results [''a'', ''b''])"
proof -
  let ?r = "\<lparr>team1 = [''a'', ''b''], team2 = [''c'', ''d''],
              team1Score = 10, team2Score = 5, confirmedBy = [''a'']\<rparr>"
  have 1: "games (scoredStore pending_results [''a'']) ''g1'' = Some (scoredGame pending_results [''a''])"
    by (simp add: scoredStore_def)
  have 2: "status (scoredGame pending_results [''a'']) = pending_results"
    by (simp add: scoredGame_def)
  have 3: "results (scoredGame pending_results [''a'']) = Some ?r"
    by (simp add: scoredGame_def)
  have 4: "''b'' \<in> set (team1 ?r) \<union> set (team2 ?r)" by simp
  have 5: "''b'' \<notin> set (confirmedBy ?r)" by simp
  from confirmGameResults_frame [OF 1 2 3 4 5]
  have "confirmGameResults (scoredStore pending_results [''a'']) ''g1'' ''b'' =
      Inr ((scoredStore pending_results [''a''])\<lparr>games :=
        (games (scoredStore pending_results [''a'']))(''g1'' \<mapsto>
           (scoredGame pending_results [''a''])\<lparr>results :=
              Some (?r\<lparr>confirmedBy := confirmedBy ?r @ [''b'']\<rparr>)\<rparr>)\<rparr>)"
    by blast
  then show ?thesis by (simp add: scoredStore_def scoredGame_def)
qed

subsection \<open>The rating-commit transaction and the status of the game\<close>

lemma avg_pair: "calculateTeamAverageElo [of_int n, of_int n] = of_int n"
proof -
  have "(of_int n + of_int n) / 2 + 1 / 2 = (of_int n :: real) + 1 / 2" by simp
  moreover have "\<lfloor>(of_int n :: real) + 1 / 2\<rfloor> = n" by linarith
  ultimately show ?thesis
    by (simp add: calculateTeamAverageElo_def math_round_def)
qed

lemma avg_pair_1200: "calculateTeamAverageElo [1200, 1200] = 1200"
  using avg_pair [of 1200] by simp

lemma avg_pair_1216: "calculateTeamAverageElo [1216, 1216] = 1216"
  using avg_pair [of 1216] by simp

lemma avg_pair_1184: "calculateTeamAverageElo [1184, 1184] = 1184"
  using avg_pair [of 1184] by simp

lemma newElo_second_win:
  "calculateNewElo 1216 (calculateExpectedScore 1216 1184) 1 ELO_K_FACTOR > 1216"
proof -
  define x where "x = (10::real) powr ((1184 - 1216) / 400)"
  have "(10::real) powr (- 1) \<le> 10 powr ((1184 - 1216) / 400)"
    by (rule powr_mono) simp_all
  then have x: "1 / 10 \<le> x" by (simp add: x_def powr_minus inverse_eq_divide)
  then have "1 / (1 + x) \<le> 10 / 11" by (simp add: field_simps)
  then have "1217 \<le> 1216 + 32 * (1 - 1 / (1 + x)) + 1 / 2" by simp
  then have "1217 \<le> \<lfloor>1216 + 32 * (1 - 1 / (1 + x)) + 1 / 2\<rfloor>" by (simp add: le_floor_iff)
  then have "(1216::real) < of_int \<lfloor>1216 + 32 * (1 - 1 / (1 + x)) + 1 / 2\<rfloor>" by linarith
  then show ?thesis
    by (simp only: calculateNewElo_def calculateExpectedScore_def ELO_K_FACTOR_def
        math_round_def x_def)
qed

text \<open>
  Claim C1, as the code has it. The status is checked by \<open>confirmGameResults\<close>, which the
  confirm handler awaits before it starts the rating-commit transaction. When the
  stored game is not pending results, and so when it is already completed, the
  handler shows the message of that check, calls the transaction zero times and leaves
  the store, with every rating and counter, as it was, whatever its own snapshot of
  the game says. In particular this is so in every store that a successful transaction
  for that game has left.
\<close>

theorem handleConfirmScore_not_pending:
  shows "(games st (gameId game) = Some g \<and> status g \<noteq> pending_results \<longrightarrow>
            handleConfirmScore st game userId =
              \<lparr>storeAfter = st, errorShown = Some NotPendingResults, transactionCalls = 0\<rparr>) \<and>
         (processEloUpdatesTransactional st0 (gameId game) t1 t2 s1 s2 sp f = Inr st1 \<longrightarrow>
            handleConfirmScore st1 game userId =
              \<lparr>storeAfter = st1, errorShown = Some NotPendingResults, transactionCalls = 0\<rparr>)"
proof -
  have a: "handleConfirmScore st' game userId =
      \<lparr>storeAfter = st', errorShown = Some NotPendingResults, transactionCalls = 0\<rparr>"
    if "games st' (gameId game) = Some g'" "status g' \<noteq> pending_results" for st' g'
    using confirmGameResults_not_pending [OF that] by (simp add: handleConfirmScore_def)
  have b: "handleConfirmScore st1 game userId =
      \<lparr>storeAfter = st1, errorShown = Some NotPendingResults, transactionCalls = 0\<rparr>"
    if "processEloUpdatesTransactional st0 (gameId game) t1 t2 s1 s2 sp f = Inr st1"
  proof -
    from transaction_games [OF that] obtain g0 where
      "games st1 (gameId game) = Some (g0\<lparr>status := completed\<rparr>)" by auto
    then show ?thesis by (rule a) simp
  qed
  from a b show ?thesis by blast
qed

theorem handleConfirmScore_not_pending_witness:
  "games (scoredStore completed [''a'', ''b'', ''c'']) (gameId (scoredGame pending_results [''a'', ''b''])) =
     Some (scoredGame completed [''a'', ''b'', ''c'']) \<and>
   status (scoredGame completed [''a'', ''b'', ''c'']) \<noteq> pending_results \<and>
   handleConfirmScore (scoredStore completed [''a'', ''b'', ''c''])
       (scoredGame pending_results [''a'', ''b'']) ''d'' =
     \<lparr>storeAfter = scoredStore completed [''a'', ''b'', ''c''],
      errorShown = Some NotPendingResults, transactionCalls = 0\<rparr>"
proof -
  have 1: "games (scoredStore completed [''a'', ''b'', ''c''])
      (gameId (scoredGame pending_results [''a'', ''b''])) =
     Some (scoredGame completed [''a'', ''b'', ''c''])"
    by (simp add: scoredStore_def scoredGame_def)
  have 2: "status (scoredGame completed [''a'', ''b'', ''c'']) \<noteq> pending_results"
    by (simp add: scoredGame_def)
  from handleConfirmScore_not_pending
    [of "scoredStore completed [''a'', ''b'', ''c'']" "scoredGame pending_results [''a'', ''b'']"
        "scoredGame completed [''a'', ''b'', ''c'']" "''d''"] 1 2
  show ?thesis by blast
qed

text \<open>
  Claim C1 as stated fails: the transaction does not read the game. When the
  confirmations of \<open>c\<close> and \<open>d\<close> are both recorded before either handler commits, the
  first transaction completes the game and the second one, run against the completed
  game, succeeds as well: it moves the rating of \<open>a\<close> beyond 1216 and counts the game
  a second time.
\<close>

theorem commit_on_completed_game_counterexample:
  "confirmedBy (the (results (the (games afterBothConfirm ''g1'')))) = [''a'', ''b'', ''c'', ''d''] \<and>
   \<not> isl firstCommit \<and>
   status (the (games (projr firstCommit) ''g1'')) = completed \<and>
   sports (the (users (projr firstCommit) ''a'')) basketball = 1216 \<and>
   gamesPlayed (the (users (projr firstCommit) ''a'')) = 1 \<and>
   gamesAttended (the (users (projr firstCommit) ''a'')) = 1 \<and>
   \<not> isl secondCommit \<and>
   1216 < sports (the (users (projr secondCommit) ''a'')) basketball \<and>
   gamesPlayed (the (users (projr secondCommit) ''a'')) = 2 \<and>
   gamesAttended (the (users (projr secondCommit) ''a'')) = 2"
  by (simp add: afterBothConfirm_def firstCommit_def secondCommit_def
      confirmGameResults_def arrayUnion_def
      processEloUpdatesTransactional_def scoredStore_def scoredGame_def newUser_def
      DEFAULT_ELO_def processGameResults_def Let_def avg_pair_1200 avg_pair_1216 avg_pair_1184
      expected_equal newElo_win newElo_loss newElo_second_win updateGameDoc_def)

subsection \<open>The majority of confirmations\<close>

text \<open>
  Claim C2, as the code has it. Let the stored game be pending results and the actor
  a participant of the stored result who has not confirmed. The handler records the
  confirmation and then decides on its own snapshot of the game: if twice the
  length of the snapshot's \<open>confirmedBy\<close> plus one exceeds the sum of the lengths of
  the snapshot's two teams, it runs the rating-commit transaction once, and its
  store is the one the transaction returns, in which the game is completed, or, when
  the transaction fails, the store with the confirmation only and the error shown;
  otherwise it does not run the transaction and its store is the one with the
  confirmation only. When the snapshot is the stored game and the teams share no
  player and list none twice, the condition is that twice the number of
  confirmations after the call exceeds the number of players of the two teams.
\<close>

theorem handleConfirmScore_trigger:
  assumes "games st (gameId game) = Some g" "status g = pending_results" "results g = Some rs"
    "userId \<in> set (team1 rs) \<union> set (team2 rs)" "userId \<notin> set (confirmedBy rs)"
    "results game = Some r"
  shows "handleConfirmScore st game userId =
           (if length (team1 r) + length (team2 r) < 2 * (length (confirmedBy r) + 1)
            then (case processEloUpdatesTransactional
                         (st\<lparr>games := (games st)(gameId game \<mapsto>
                             g\<lparr>results := Some (rs\<lparr>confirmedBy := confirmedBy rs @ [userId]\<rparr>)\<rparr>)\<rparr>)
                         (gameId game) (team1 r) (team2 r) (team1Score r) (team2Score r)
                         (sport game) processGameResults of
                    Inl e \<Rightarrow>
                      \<lparr>storeAfter = st\<lparr>games := (games st)(gameId game \<mapsto>
                           g\<lparr>results := Some (rs\<lparr>confirmedBy := confirmedBy rs @ [userId]\<rparr>)\<rparr>)\<rparr>,
                       errorShown = Some e, transactionCalls = 1\<rparr>
                  | Inr st2 \<Rightarrow> \<lparr>storeAfter = st2, errorShown = None, transactionCalls = 1\<rparr>)
            else \<lparr>storeAfter = st\<lparr>games := (games st)(gameId game \<mapsto>
                      g\<lparr>results := Some (rs\<lparr>confirmedBy := confirmedBy rs @ [userId]\<rparr>)\<rparr>)\<rparr>,
                  errorShown = None, transactionCalls = 0\<rparr>) \<and>
         (transactionCalls (handleConfirmScore st game userId) = 1 \<and>
          errorShown (handleConfirmScore st game userId) = None \<longrightarrow>
            games (storeAfter (handleConfirmScore st game userId)) (gameId game) =
              Some (g\<lparr>results := Some (rs\<lparr>confirmedBy := confirmedBy rs @ [userId]\<rparr>),
                       status := completed\<rparr>)) \<and>
         (game = g \<and> distinct (team1 r @ team2 r) \<and> distinct (confirmedBy r) \<longrightarrow>
            (length (team1 r) + length (team2 r) < 2 * (length (confirmedBy r) + 1)) =
            (card (set (team1 r) \<union> set (team2 r)) <
               2 * card (set (confirmedBy rs @ [userId]))))"
proof -
  let ?st1 = "st\<lparr>games := (games st)(gameId game \<mapsto>
      g\<lparr>results := Some (rs\<lparr>confirmedBy := confirmedBy rs @ [userId]\<rparr>)\<rparr>)\<rparr>"
  let ?tx = "processEloUpdatesTransactional ?st1 (gameId game) (team1 r) (team2 r)
      (team1Score r) (team2Score r) (sport game) processGameResults"
  let ?more = "length (team1 r) + length (team2 r) < 2 * (length (confirmedBy r) + 1)"
  have c: "confirmGameResults st (gameId game) userId = Inr ?st1"
    using assms(1-5) by (rule confirmGameResults_ok)
  have thr: "(real (length (confirmedBy r) + 1) > real (length (team1 r) + length (team2 r)) / 2)
      = ?more"
    by (rule majority_nat)
  have eq: "handleConfirmScore st game userId =
      (if ?more
       then (case ?tx of
               Inl e \<Rightarrow> \<lparr>storeAfter = ?st1, errorShown = Some e, transactionCalls = 1\<rparr>
             | Inr st2 \<Rightarrow> \<lparr>storeAfter = st2, errorShown = None, transactionCalls = 1\<rparr>)
       else \<lparr>storeAfter = ?st1, errorShown = None, transactionCalls = 0\<rparr>)"
    by (simp only: handleConfirmScore_def c assms(6) Let_def thr sum.case option.case)
  have compl: "games (storeAfter (handleConfirmScore st game userId)) (gameId game) =
      Some (g\<lparr>results := Some (rs\<lparr>confirmedBy := confirmedBy rs @ [userId]\<rparr>),
               status := completed\<rparr>)"
    if t: "transactionCalls (handleConfirmScore st game userId) = 1"
      and e: "errorShown (handleConfirmScore st game userId) = None"
  proof (cases ?more)
    case False
    with t show ?thesis by (simp add: eq)
  next
    case True
    show ?thesis
    proof (cases ?tx)
      case (Inl err)
      with True e show ?thesis by (simp add: eq)
    next
      case (Inr st2)
      from transaction_games [OF Inr]
      have "games st2 (gameId game) =
          Some (g\<lparr>results := Some (rs\<lparr>confirmedBy := confirmedBy rs @ [userId]\<rparr>),
                   status := completed\<rparr>)" by simp
      with True Inr show ?thesis by (simp add: eq)
    qed
  qed
  have cnt: "?more = (card (set (team1 r) \<union> set (team2 r)) <
       2 * card (set (confirmedBy rs @ [userId])))"
    if "game = g" "distinct (team1 r @ team2 r)" "distinct (confirmedBy r)"
  proof -
    from that(1) assms(3,6) have rs: "rs = r" by simp
    have total: "card (set (team1 r) \<union> set (team2 r)) = length (team1 r) + length (team2 r)"
      using that(2) distinct_card [of "team1 r @ team2 r"] by simp
    have conf: "card (set (confirmedBy r @ [userId])) = length (confirmedBy r) + 1"
      using that(3) assms(5) rs distinct_card [of "confirmedBy r @ [userId]"] by simp
    show ?thesis unfolding rs total conf by simp
  qed
  from eq compl cnt show ?thesis by blast
qed

theorem handleConfirmScore_trigger_witness:
  "handleConfirmScore (scoredStore pending_results [''a''])
      (scoredGame pending_results [''a'']) ''b'' =
     \<lparr>storeAfter = scoredStore pending_results [''a'', ''b''],
      errorShown = None, transactionCalls = 0\<rparr> \<and>
   transactionCalls (handleConfirmScore (scoredStore pending_results [''a'', ''b''])
      (scoredGame pending_results [''a'', ''b'']) ''c'') = 1 \<and>
   errorShown (handleConfirmScore (scoredStore pending_results [''a'', ''b''])
      (scoredGame pending_results [''a'', ''b'']) ''c'') = None \<and>
   games (storeAfter (handleConfirmScore (scoredStore pending_results [''a'', ''b''])
      (scoredGame pending_results [''a'', ''b'']) ''c'')) ''g1'' =
     Some (scoredGame completed [''a'', ''b'', ''c'']) \<and>
   sports (the (users (storeAfter (handleConfirmScore (scoredStore pending_results [''a'', ''b''])
      (scoredGame pending_results [''a'', ''b'']) ''c'')) ''a'')) basketball = 1216 \<and>
   sports (the (users (storeAfter (handleConfirmScore (scoredStore pending_results [''a'', ''b''])
      (scoredGame pending_results [''a'', ''b'']) ''c'')) ''d'')) basketball = 1184 \<and>
   gamesPlayed (the (users (storeAfter (handleConfirmScore (scoredStore pending_results [''a'', ''b''])
      (scoredGame pending_results [''a'', ''b'']) ''c'')) ''d'')) = 1"
proof -
  have 1: "games (scoredStore pending_results cs) (gameId (scoredGame pending_results cs)) =
      Some (scoredGame pending_results cs)" for cs
    by (simp add: scoredStore_def scoredGame_def)
  have 2: "status (scoredGame pending_results cs) = pending_results" for cs
    by (simp add: scoredGame_def)
  have 3: "results (scoredGame pending_results cs) =
      Some \<lparr>team1 = [''a'', ''b''], team2 = [''c'', ''d''],
            team1Score = 10, team2Score = 5, confirmedBy = cs\<rparr>" for cs
    by (simp add: scoredGame_def)
  have b4: "''b'' \<in> set (team1 \<lparr>team1 = [''a'', ''b''], team2 = [''c'', ''d''],
            team1Score = 10, team2Score = 5, confirmedBy = [''a'']\<rparr>) \<union>
          set (team2 \<lparr>team1 = [''a'', ''b''], team2 = [''c'', ''d''],
            team1Score = 10, team2Score = 5, confirmedBy = [''a'']\<rparr>)" by simp
  have b5: "''b'' \<notin> set (confirmedBy \<lparr>team1 = [''a'', ''b''], team2 = [''c'', ''d''],
            team1Score = 10, team2Score = 5, confirmedBy = [''a'']\<rparr>)" by simp
  have c4: "''c'' \<in> set (team1 \<lparr>team1 = [''a'', ''b''], team2 = [''c'', ''d''],
            team1Score = 10, team2Score = 5, confirmedBy = [''a'', ''b'']\<rparr>) \<union>
          set (team2 \<lparr>team1 = [''a'', ''b''], team2 = [''c'', ''d''],
            team1Score = 10, team2Score = 5, confirmedBy = [''a'', ''b'']\<rparr>)" by simp
  have c5: "''c'' \<notin> set (confirmedBy \<lparr>team1 = [''a'', ''b''], team2 = [''c'', ''d''],
            team1Score = 10, team2Score = 5, confirmedBy = [''a'', ''b'']\<rparr>)" by simp
  have second: "handleConfirmScore (scoredStore pending_results [''a''])
      (scoredGame pending_results [''a'']) ''b'' =
     \<lparr>storeAfter = scoredStore pending_results [''a'', ''b''],
      errorShown = None, transactionCalls = 0\<rparr>"
    using handleConfirmScore_trigger [OF 1 2 3 b4 b5 3]
    by (simp add: scoredStore_def scoredGame_def)
  have third: "transactionCalls (handleConfirmScore (scoredStore pending_results [''a'', ''b''])
      (scoredGame pending_results [''a'', ''b'']) ''c'') = 1 \<and>
   errorShown (handleConfirmScore (scoredStore pending_results [''a'', ''b''])
      (scoredGame pending_results [''a'', ''b'']) ''c'') = None \<and>
   games (storeAfter (handleConfirmScore (scoredStore pending_results [''a'', ''b''])
      (scoredGame pending_results [''a'', ''b'']) ''c'')) ''g1'' =
     Some (scoredGame completed [''a'', ''b'', ''c'']) \<and>
   sports (the (users (storeAfter (handleConfirmScore (scoredStore pending_results [''a'', ''b''])
      (scoredGame pending_results [''a'', ''b'']) ''c'')) ''a'')) basketball = 1216 \<and>
   sports (the (users (storeAfter (handleConfirmScore (scoredStore pending_results [''a'', ''b''])
      (scoredGame pending_results [''a'', ''b'']) ''c'')) ''d'')) basketball = 1184 \<and>
   gamesPlayed (the (users (storeAfter (handleConfirmScore (scoredStore pending_results [''a'', ''b''])
      (scoredGame pending_results [''a'', ''b'']) ''c'')) ''d'')) = 1"
    using handleConfirmScore_trigger [OF 1 2 3 c4 c5 3]
    by (simp add: processEloUpdatesTransactional_def scoredStore_def scoredGame_def newUser_def
        DEFAULT_ELO_def processGameResults_def Let_def avg_pair_1200 expected_equal newElo_win
        newElo_loss updateGameDoc_def)
  from second third show ?thesis by (simp only:) 
qed

text \<open>
  Claim C2 as stated fails in two ways. With a snapshot that is behind the store (the
  store has the confirmations of \<open>a\<close> and \<open>b\<close>, the snapshot only that of \<open>a\<close>), the
  confirmation of \<open>c\<close> is the third of four and the transaction is not run. With the
  result that \<open>submitGameResults\<close> stores for \<open>h\<close> alone in both teams, the confirmation
  of \<open>h\<close> is the confirmation of the only participant and the transaction is not run.
\<close>

theorem handleConfirmScore_counterexample:
  "transactionCalls (handleConfirmScore (scoredStore pending_results [''a'', ''b''])
      (scoredGame pending_results [''a'']) ''c'') = 0 \<and>
   storeAfter (handleConfirmScore (scoredStore pending_results [''a'', ''b''])
      (scoredGame pending_results [''a'']) ''c'') = scoredStore pending_results [''a'', ''b'', ''c''] \<and>
   \<not> isl (submitGameResults (pickupStore in_progress [''h'', ''p'']) ''g2''
       \<lparr>team1 = [''h''], team2 = [''h''], team1Score = 10, team2Score = 5\<rparr>) \<and>
   transactionCalls (handleConfirmScore
      (projr (submitGameResults (pickupStore in_progress [''h'', ''p'']) ''g2''
         \<lparr>team1 = [''h''], team2 = [''h''], team1Score = 10, team2Score = 5\<rparr>))
      (the (games (projr (submitGameResults (pickupStore in_progress [''h'', ''p'']) ''g2''
         \<lparr>team1 = [''h''], team2 = [''h''], team1Score = 10, team2Score = 5\<rparr>)) ''g2''))
      ''h'') = 0 \<and>
   map_option confirmedBy (results (the (games (storeAfter (handleConfirmScore
      (projr (submitGameResults (pickupStore in_progress [''h'', ''p'']) ''g2''
         \<lparr>team1 = [''h''], team2 = [''h''], team1Score = 10, team2Score = 5\<rparr>))
      (the (games (projr (submitGameResults (pickupStore in_progress [''h'', ''p'']) ''g2''
         \<lparr>team1 = [''h''], team2 = [''h''], team1Score = 10, team2Score = 5\<rparr>)) ''g2''))
      ''h'')) ''g2''))) = Some [''h'']"
  by (simp add: handleConfirmScore_def confirmGameResults_def submitGameResults_def
      updateGameDoc_def arrayUnion_def scoredStore_def scoredGame_def pickupStore_def
      pickupGame_def number_isInteger_def Let_def)

subsection \<open>Joining\<close>

text \<open>
  Claim C4, as the code has it. \<open>joinGame\<close> checks nothing: for every game that exists,
  whatever its status, its number of players and its minimum rating, it succeeds and
  adds the actor to the players (a set union). Status, capacity and rating are
  conditions of the page, not errors of the operation: the join button is enabled
  exactly when the game is open, the actor has not joined, there are fewer players
  than \<open>maxPlayers\<close>, and a minimum rating other than 0, if set, is not above the
  actor's rating for the sport of the game.
\<close>

theorem joinGame_unguarded:
  assumes "games st gid = Some g"
  shows "handleJoin st gid (Some userId) =
           Inr (st\<lparr>games := (games st)(gid \<mapsto> g\<lparr>players := arrayUnion (players g) userId\<rparr>)\<rparr>) \<and>
         set (arrayUnion (players g) userId) = insert userId (set (players g)) \<and>
         (joinButtonEnabled g (Some userId) profile False \<longleftrightarrow>
            status g = open_status \<and> userId \<notin> set (players g) \<and>
            int (length (players g)) < maxPlayers g \<and>
            (\<forall>m. minElo g = Some m \<and> m \<noteq> 0 \<longrightarrow>
               (\<exists>p. profile = Some p \<and> m \<le> sports p (sport g)) \<or> (profile = None \<and> m \<le> 0)))"
  using assms
  by (auto simp add: handleJoin_def joinGame_def updateGameDoc_def arrayUnion_def
      joinButtonEnabled_def isJoined_def isFull_def meetsEloRequirement_def
      split: option.splits)

theorem joinGame_unguarded_witness:
  "games (pickupStore open_status []) ''g2'' = Some (pickupGame open_status []) \<and>
   handleJoin (pickupStore open_status []) ''g2'' (Some ''q'') =
     Inr ((pickupStore open_status [])\<lparr>games := (games (pickupStore open_status []))(''g2'' \<mapsto>
       (pickupGame open_status [])\<lparr>players := [''h'', ''p'', ''q'']\<rparr>)\<rparr>) \<and>
   \<not> joinButtonEnabled (pickupGame open_status []) (Some ''q'') (Some (newUser ''q'')) False"
proof -
  have h: "games (pickupStore open_status []) ''g2'' = Some (pickupGame open_status [])"
    by (simp add: pickupStore_def)
  have p: "arrayUnion (players (pickupGame open_status [])) ''q'' = [''h'', ''p'', ''q'']"
    by (simp add: arrayUnion_def pickupGame_def)
  have l: "\<not> int (length (players (pickupGame open_status []))) < maxPlayers (pickupGame open_status [])"
    by (simp add: pickupGame_def)
  from joinGame_unguarded [OF h, of "''q''" "Some (newUser ''q'')"] h p l
  show ?thesis by simp
qed

text \<open>
  Claim C4 as stated fails: the game is in progress, has as many players as
  \<open>maxPlayers\<close> and asks for a rating of 1500, the actor \<open>q\<close> is rated 1200, and
  \<open>joinGame\<close> succeeds and makes \<open>q\<close> the third player.
\<close>

theorem joinGame_counterexample:
  "status (pickupGame in_progress [''h'']) = in_progress \<and>
   int (length (players (pickupGame in_progress [''h'']))) = maxPlayers (pickupGame in_progress [''h'']) \<and>
   minElo (pickupGame in_progress [''h'']) = Some 1500 \<and>
   sports (the (users (pickupStore in_progress [''h'']) ''q'')) soccer = 1200 \<and>
   joinGame (pickupStore in_progress [''h'']) ''g2'' ''q'' =
     Inr ((pickupStore in_progress [''h''])\<lparr>games := [''g2'' \<mapsto>
       (pickupGame in_progress [''h''])\<lparr>players := [''h'', ''p'', ''q'']\<rparr>]\<rparr>)"
  by (simp add: joinGame_def updateGameDoc_def arrayUnion_def pickupStore_def pickupGame_def
      newUser_def DEFAULT_ELO_def)

subsection \<open>The checked-in players are players\<close>

lemma other_operations_keep_checkedIn_subset:
  assumes "games st gid = Some g" "checkedInSubset g"
  shows "joinGame st gid u = Inr st' \<Longrightarrow> \<exists>g'. games st' gid = Some g' \<and> checkedInSubset g'"
    and "checkInToGame st gid u = Inr st' \<Longrightarrow> \<exists>g'. games st' gid = Some g' \<and> checkedInSubset g'"
    and "updateGameStatus st gid s = Inr st' \<Longrightarrow> \<exists>g'. games st' gid = Some g' \<and> checkedInSubset g'"
    and "cancelGame st gid = Inr st' \<Longrightarrow> \<exists>g'. games st' gid = Some g' \<and> checkedInSubset g'"
    and "submitGameResults st gid input = Inr st' \<Longrightarrow> \<exists>g'. games st' gid = Some g' \<and> checkedInSubset g'"
    and "confirmGameResults st gid u = Inr st' \<Longrightarrow> \<exists>g'. games st' gid = Some g' \<and> checkedInSubset g'"
    and "processEloUpdatesTransactional st gid t1 t2 s1 s2 sp f = Inr st' \<Longrightarrow>
           \<exists>g'. games st' gid = Some g' \<and> checkedInSubset g'"
proof -
  show "joinGame st gid u = Inr st' \<Longrightarrow> \<exists>g'. games st' gid = Some g' \<and> checkedInSubset g'"
    using assms by (auto simp add: joinGame_def updateGameDoc_def arrayUnion_def checkedInSubset_def)
  show "checkInToGame st gid u = Inr st' \<Longrightarrow> \<exists>g'. games st' gid = Some g' \<and> checkedInSubset g'"
    using assms
    by (auto simp add: checkInToGame_def updateGameDoc_def arrayUnion_def checkedInSubset_def
        split: if_splits)
  show "updateGameStatus st gid s = Inr st' \<Longrightarrow> \<exists>g'. games st' gid = Some g' \<and> checkedInSubset g'"
    using assms by (auto simp add: updateGameStatus_def updateGameDoc_def checkedInSubset_def)
  show "cancelGame st gid = Inr st' \<Longrightarrow> \<exists>g'. games st' gid = Some g' \<and> checkedInSubset g'"
    using assms by (auto simp add: cancelGame_def updateGameDoc_def checkedInSubset_def)
  show "submitGameResults st gid input = Inr st' \<Longrightarrow> \<exists>g'. games st' gid = Some g' \<and> checkedInSubset g'"
    using assms
    by (auto simp add: submitGameResults_def updateGameDoc_def checkedInSubset_def
        split: if_splits option.splits)
  show "confirmGameResults st gid u = Inr st' \<Longrightarrow> \<exists>g'. games st' gid = Some g' \<and> checkedInSubset g'"
    using assms
    by (auto simp add: confirmGameResults_def updateGameDoc_def checkedInSubset_def Let_def
        split: if_splits option.splits)
  show "processEloUpdatesTransactional st gid t1 t2 s1 s2 sp f = Inr st' \<Longrightarrow>
           \<exists>g'. games st' gid = Some g' \<and> checkedInSubset g'"
    using assms transaction_games [of st gid t1 t2 s1 s2 sp f st']
    by (auto simp add: checkedInSubset_def)
qed

text \<open>
  Claim C5 does not hold of leaving. In the open game of \<open>h\<close> and \<open>p\<close>, where \<open>p\<close> has
  checked in, the checked-in players are players and the page shows \<open>p\<close> the leave
  button; leaving removes \<open>p\<close> from the players and not from the checked-in players,
  so that afterwards \<open>p\<close> is checked in without being a player.
\<close>

theorem leaveGame_breaks_checkedInSubset:
  "checkedInSubset (pickupGame open_status [''p'']) \<and>
   leaveButtonShown (pickupGame open_status [''p'']) (Some ''p'') \<and>
   (\<exists>s' g'. handleLeave (pickupStore open_status [''p'']) ''g2'' (Some ''p'') = Inr s' \<and>
      games s' ''g2'' = Some g' \<and> players g' = [''h''] \<and> checkedIn g' = [''p''] \<and>
      \<not> checkedInSubset g')"
  by (simp add: handleLeave_def leaveGame_def updateGameDoc_def arrayRemove_def pickupStore_def
      pickupGame_def leaveButtonShown_def isJoined_def checkedInSubset_def)

subsection \<open>Submitting results\<close>

lemma find_None_subset: "(find (\<lambda>x. x \<notin> A) xs = None) = (set xs \<subseteq> A)"
  by (induction xs) auto

lemma submitGameResults_cases:
  assumes "games st gid = Some g"
  shows "submitGameResults st gid input =
     (if status g \<noteq> in_progress then Inl NotInProgress
      else case find (\<lambda>playerId. playerId \<notin> set (players g)) (team1 input @ team2 input) of
             Some playerId \<Rightarrow> Inl (PlayerNotInGame playerId)
           | None \<Rightarrow>
               if team1Score input < 0 \<or> team2Score input < 0 then Inl ScoresNegative
               else if \<not> number_isInteger (team1Score input) \<or> \<not> number_isInteger (team2Score input)
                 then Inl ScoresNotWhole
               else Inr (st\<lparr>games := (games st)(gid \<mapsto>
                      g\<lparr>results := Some \<lparr>team1 = team1 input, team2 = team2 input,
                                         team1Score = team1Score input,
                                         team2Score = team2Score input, confirmedBy = []\<rparr>,
                        status := pending_results\<rparr>)\<rparr>))"
  using assms
  by (auto simp add: submitGameResults_def updateGameDoc_def split: option.splits)

lemma find_first:
  assumes "xs = ps @ p # qs" "\<forall>q\<in>set ps. \<not> P q" "P p"
  shows "find P xs = Some p"
  using assms by (induction ps arbitrary: xs) auto

text \<open>
  Claim C6, as the code has it. For a stored game, submitting results goes through
  these checks in this order, and the first one that fails decides the message:
  a team is empty (the check of the handler); the stored game is not in progress;
  a member of \<open>team1\<close> followed by \<open>team2\<close> is not a player of the game, the first
  such member being named; a score is negative; a score is not whole (the checks of
  \<open>submitGameResults\<close>). When none fails the submission succeeds: the game gets the
  result with nobody having confirmed and the status \<open>pending_results\<close>, and nothing
  else changes. That the teams share no player is not among the checks.
\<close>

theorem submit_results_checks:
  assumes "games st (gameId game) = Some g"
  shows "(t1 = [] \<or> t2 = [] \<longrightarrow>
            handleSubmitScore st game t1 t2 s1 s2 = Inl TeamsEmpty) \<and>
         (t1 \<noteq> [] \<and> t2 \<noteq> [] \<and> status g \<noteq> in_progress \<longrightarrow>
            handleSubmitScore st game t1 t2 s1 s2 = Inl NotInProgress) \<and>
         (\<forall>ps p qs. t1 \<noteq> [] \<and> t2 \<noteq> [] \<and> status g = in_progress \<and>
            t1 @ t2 = ps @ p # qs \<and> set ps \<subseteq> set (players g) \<and> p \<notin> set (players g) \<longrightarrow>
            handleSubmitScore st game t1 t2 s1 s2 = Inl (PlayerNotInGame p)) \<and>
         (t1 \<noteq> [] \<and> t2 \<noteq> [] \<and> status g = in_progress \<and>
          set t1 \<subseteq> set (players g) \<and> set t2 \<subseteq> set (players g) \<and> (s1 < 0 \<or> s2 < 0) \<longrightarrow>
            handleSubmitScore st game t1 t2 s1 s2 = Inl ScoresNegative) \<and>
         (t1 \<noteq> [] \<and> t2 \<noteq> [] \<and> status g = in_progress \<and>
          set t1 \<subseteq> set (players g) \<and> set t2 \<subseteq> set (players g) \<and> 0 \<le> s1 \<and> 0 \<le> s2 \<and>
          (\<not> number_isInteger s1 \<or> \<not> number_isInteger s2) \<longrightarrow>
            handleSubmitScore st game t1 t2 s1 s2 = Inl ScoresNotWhole) \<and>
         (t1 \<noteq> [] \<and> t2 \<noteq> [] \<and> status g = in_progress \<and>
          set t1 \<subseteq> set (players g) \<and> set t2 \<subseteq> set (players g) \<and> 0 \<le> s1 \<and> 0 \<le> s2 \<and>
          number_isInteger s1 \<and> number_isInteger s2 \<longrightarrow>
            handleSubmitScore st game t1 t2 s1 s2 =
              Inr (st\<lparr>games := (games st)(gameId game \<mapsto>
                     g\<lparr>results := Some \<lparr>team1 = t1, team2 = t2, team1Score = s1,
                                        team2Score = s2, confirmedBy = []\<rparr>,
                       status := pending_results\<rparr>)\<rparr>)) \<and>
         ((\<exists>st'. handleSubmitScore st game t1 t2 s1 s2 = Inr st') \<longleftrightarrow>
            t1 \<noteq> [] \<and> t2 \<noteq> [] \<and> status g = in_progress \<and>
            set t1 \<subseteq> set (players g) \<and> set t2 \<subseteq> set (players g) \<and>
            0 \<le> s1 \<and> 0 \<le> s2 \<and> number_isInteger s1 \<and> number_isInteger s2)"
proof -
  let ?input = "\<lparr>team1 = t1, team2 = t2, team1Score = s1, team2Score = s2\<rparr>"
  let ?f = "find (\<lambda>playerId. playerId \<notin> set (players g)) (t1 @ t2)"
  let ?R = "handleSubmitScore st game t1 t2 s1 s2"
  have h: "?R = (if t1 = [] \<or> t2 = [] then Inl TeamsEmpty
                 else submitGameResults st (gameId game) ?input)"
    by (simp add: handleSubmitScore_def)
  note s = submitGameResults_cases [OF assms, of ?input]
  have fn: "(?f = None) = (set t1 \<subseteq> set (players g) \<and> set t2 \<subseteq> set (players g))"
    using find_None_subset [of "set (players g)" "t1 @ t2"] by simp
  have c1: "t1 = [] \<or> t2 = [] \<longrightarrow> ?R = Inl TeamsEmpty"
    by (simp add: h)
  have c2: "t1 \<noteq> [] \<and> t2 \<noteq> [] \<and> status g \<noteq> in_progress \<longrightarrow> ?R = Inl NotInProgress"
    by (simp add: h s)
  have c3: "?R = Inl (PlayerNotInGame p)"
    if "t1 \<noteq> []" "t2 \<noteq> []" "status g = in_progress" "t1 @ t2 = ps @ p # qs"
       "set ps \<subseteq> set (players g)" "p \<notin> set (players g)" for ps p qs
  proof -
    have "?f = Some p"
      using that(4,5,6) by (intro find_first [of _ ps p qs]) auto
    then show ?thesis using that(1,2,3) by (simp add: h s)
  qed
  have c4: "t1 \<noteq> [] \<and> t2 \<noteq> [] \<and> status g = in_progress \<and>
      set t1 \<subseteq> set (players g) \<and> set t2 \<subseteq> set (players g) \<and> (s1 < 0 \<or> s2 < 0) \<longrightarrow>
      ?R = Inl ScoresNegative"
    using fn by (auto simp add: h s)
  have c5: "t1 \<noteq> [] \<and> t2 \<noteq> [] \<and> status g = in_progress \<and>
      set t1 \<subseteq> set (players g) \<and> set t2 \<subseteq> set (players g) \<and> 0 \<le> s1 \<and> 0 \<le> s2 \<and>
      (\<not> number_isInteger s1 \<or> \<not> number_isInteger s2) \<longrightarrow> ?R = Inl ScoresNotWhole"
    using fn by (auto simp add: h s)
  have c6: "t1 \<noteq> [] \<and> t2 \<noteq> [] \<and> status g = in_progress \<and>
      set t1 \<subseteq> set (players g) \<and> set t2 \<subseteq> set (players g) \<and> 0 \<le> s1 \<and> 0 \<le> s2 \<and>
      number_isInteger s1 \<and> number_isInteger s2 \<longrightarrow>
      ?R = Inr (st\<lparr>games := (games st)(gameId game \<mapsto>
                     g\<lparr>results := Some \<lparr>team1 = t1, team2 = t2, team1Score = s1,
                                        team2Score = s2, confirmedBy = []\<rparr>,
                       status := pending_results\<rparr>)\<rparr>)"
    using fn by (auto simp add: h s)
  have c7: "(\<exists>st'. ?R = Inr st') \<longleftrightarrow>
      t1 \<noteq> [] \<and> t2 \<noteq> [] \<and> status g = in_progress \<and>
      set t1 \<subseteq> set (players g) \<and> set t2 \<subseteq> set (players g) \<and>
      0 \<le> s1 \<and> 0 \<le> s2 \<and> number_isInteger s1 \<and> number_isInteger s2"
  proof (cases ?f)
    case None
    with fn have "set t1 \<subseteq> set (players g) \<and> set t2 \<subseteq> set (players g)" by simp
    then show ?thesis using None by (auto simp add: h s)
  next
    case (Some p)
    with fn have "\<not> (set t1 \<subseteq> set (players g) \<and> set t2 \<subseteq> set (players g))" by simp
    then show ?thesis using Some by (auto simp add: h s)
  qed
  from c1 c2 c3 c4 c5 c6 c7 show ?thesis by blast
qed

theorem submit_results_checks_witness:
  "games (pickupStore in_progress [''h'', ''p'']) (gameId (pickupGame in_progress [''h'', ''p''])) =
     Some (pickupGame in_progress [''h'', ''p'']) \<and>
   handleSubmitScore (pickupStore in_progress [''h'', ''p'']) (pickupGame in_progress [''h'', ''p''])
     [''h''] [''p''] 10 5 =
     Inr ((pickupStore in_progress [''h'', ''p''])\<lparr>games :=
       (games (pickupStore in_progress [''h'', ''p'']))(''g2'' \<mapsto>
          (pickupGame in_progress [''h'', ''p''])\<lparr>results :=
             Some \<lparr>team1 = [''h''], team2 = [''p''], team1Score = 10, team2Score = 5,
                   confirmedBy = []\<rparr>,
           status := pending_results\<rparr>)\<rparr>) \<and>
   handleSubmitScore (pickupStore in_progress [''h'', ''p'']) (pickupGame in_progress [''h'', ''p''])
     [''h''] [''q'', ''r''] (- 1) (1 / 2) = Inl (PlayerNotInGame ''q'') \<and>
   handleSubmitScore (pickupStore in_progress [''h'', ''p'']) (pickupGame in_progress [''h'', ''p''])
     [''h''] [''p''] (- 1) (1 / 2) = Inl ScoresNegative \<and>
   handleSubmitScore (pickupStore in_progress [''h'', ''p'']) (pickupGame in_progress [''h'', ''p''])
     [''h''] [''p''] 1 (1 / 2) = Inl ScoresNotWhole"
proof -
  have h: "games (pickupStore in_progress [''h'', ''p'']) (gameId (pickupGame in_progress [''h'', ''p''])) =
     Some (pickupGame in_progress [''h'', ''p''])"
    by (simp add: pickupStore_def pickupGame_def)
  have g: "gameId (pickupGame in_progress [''h'', ''p'']) = ''g2''"
    "status (pickupGame in_progress [''h'', ''p'']) = in_progress"
    "players (pickupGame in_progress [''h'', ''p'']) = [''h'', ''p'']"
    by (simp_all add: pickupGame_def)
  have ok: "handleSubmitScore (pickupStore in_progress [''h'', ''p''])
      (pickupGame in_progress [''h'', ''p'']) [''h''] [''p''] 10 5 =
     Inr ((pickupStore in_progress [''h'', ''p''])\<lparr>games :=
       (games (pickupStore in_progress [''h'', ''p'']))(''g2'' \<mapsto>
          (pickupGame in_progress [''h'', ''p''])\<lparr>results :=
             Some \<lparr>team1 = [''h''], team2 = [''p''], team1Score = 10, team2Score = 5,
                   confirmedBy = []\<rparr>,
           status := pending_results\<rparr>)\<rparr>)"
    using submit_results_checks [OF h, of "[''h'']" "[''p'']" 10 5]
    by (simp add: g number_isInteger_def)
  have np: "handleSubmitScore (pickupStore in_progress [''h'', ''p''])
      (pickupGame in_progress [''h'', ''p'']) [''h''] [''q'', ''r''] (- 1) (1 / 2) =
      Inl (PlayerNotInGame ''q'')"
  proof -
    have "[''h''] \<noteq> [] \<and> [''q'', ''r''] \<noteq> [] \<and>
        status (pickupGame in_progress [''h'', ''p'']) = in_progress \<and>
        [''h''] @ [''q'', ''r''] = [''h''] @ ''q'' # [''r''] \<and>
        set [''h''] \<subseteq> set (players (pickupGame in_progress [''h'', ''p''])) \<and>
        ''q'' \<notin> set (players (pickupGame in_progress [''h'', ''p'']))"
      by (simp add: g)
    with submit_results_checks [OF h, of "[''h'']" "[''q'', ''r'']" "- 1" "1 / 2"]
    show ?thesis by blast
  qed
  have neg: "handleSubmitScore (pickupStore in_progress [''h'', ''p''])
      (pickupGame in_progress [''h'', ''p'']) [''h''] [''p''] (- 1) (1 / 2) = Inl ScoresNegative"
    using submit_results_checks [OF h, of "[''h'']" "[''p'']" "- 1" "1 / 2"]
    by (simp add: g)
  have nw: "handleSubmitScore (pickupStore in_progress [''h'', ''p''])
      (pickupGame in_progress [''h'', ''p'']) [''h''] [''p''] 1 (1 / 2) = Inl ScoresNotWhole"
    using submit_results_checks [OF h, of "[''h'']" "[''p'']" 1 "1 / 2"]
    by (simp add: g number_isInteger_def)
  from h ok np neg nw show ?thesis by (simp only:)
qed

text \<open>
  Claim C6 as stated fails: with \<open>h\<close> alone in both teams \<open>submitGameResults\<close> succeeds.
\<close>

theorem submit_results_counterexample:
  "status (pickupGame in_progress [''h'', ''p'']) = in_progress \<and>
   submitGameResults (pickupStore in_progress [''h'', ''p'']) ''g2''
       \<lparr>team1 = [''h''], team2 = [''h''], team1Score = 10, team2Score = 5\<rparr> =
     Inr ((pickupStore in_progress [''h'', ''p''])\<lparr>games := [''g2'' \<mapsto>
       (pickupGame in_progress [''h'', ''p''])\<lparr>results :=
          Some \<lparr>team1 = [''h''], team2 = [''h''], team1Score = 10, team2Score = 5,
                confirmedBy = []\<rparr>,
        status := pending_results\<rparr>]\<rparr>)"
  by (simp add: submitGameResults_def updateGameDoc_def pickupStore_def
      pickupGame_def number_isInteger_def)

subsection \<open>Recurrence\<close>

lemma createNextRecurringGame_with_minElo:
  assumes "recurrence g = Some r" "frequency r \<noteq> none" "minElo g = Some m"
  shows "(plusDays (startTime g) (if frequency r = weekly then 7 else 14) \<le> plusDays now 30 \<longrightarrow>
           (\<exists>st' g' r'. createNextRecurringGame plusDays st docId now g = Inr (Some docId, st') \<and>
              games st' docId = Some g' \<and>
              (\<forall>other. other \<noteq> docId \<longrightarrow> games st' other = games st other) \<and>
              users st' = users st \<and>
              startTime g' = plusDays (startTime g) (if frequency r = weekly then 7 else 14) \<and>
              sport g' = sport g \<and> location g' = location g \<and> duration g' = duration g \<and>
              maxPlayers g' = maxPlayers g \<and> skillLevel g' = skillLevel g \<and>
              minElo g' = minElo g \<and>
              gameId g' = docId \<and> hostId g' = hostId g \<and> players g' = [hostId g] \<and>
              checkedIn g' = [] \<and> status g' = open_status \<and> results g' = None \<and>
              recurrence g' = Some r' \<and> frequency r' = frequency r \<and>
              dayOfWeek r' = dayOfWeek r \<and>
              parentGameId r' =
                Some (case parentGameId r of
                        None \<Rightarrow> gameId g
                      | Some p \<Rightarrow> if p = [] then gameId g else p))) \<and>
         (plusDays (startTime g) (if frequency r = weekly then 7 else 14) > plusDays now 30 \<longrightarrow>
            createNextRecurringGame plusDays st docId now g = Inr (None, st))"
  using assms
  by (simp add: createNextRecurringGame_def createGame_def Let_def)

lemma createNextRecurringGame_without_minElo:
  assumes "recurrence g = Some r" "frequency r \<noteq> none" "minElo g = None"
    "plusDays (startTime g) (if frequency r = weekly then 7 else 14) \<le> plusDays now 30"
  shows "createNextRecurringGame plusDays st docId now g = Inl UnsupportedFieldValue"
  using assms
  by (auto simp add: createNextRecurringGame_def createGame_def Let_def split: if_splits)



end
